theory Spec2Isabelle
  imports Main
begin

section \<open>Package nfc: constants\<close>

text \<open>
  The embedding follows \<^verbatim>\<open>src/dev/nfc/nfc.go\<close>. Go's untyped integer constants
  and the type \<^verbatim>\<open>int\<close> are modelled by HOL's \<open>int\<close>: the file performs no
  arithmetic on error codes, so no wrap-around can occur, and every value of a 32- or
  64-bit \<^verbatim>\<open>int\<close> is a HOL integer.
\<close>

definition BUFSIZE_CONNSTRING :: int where
  "BUFSIZE_CONNSTRING = 1024"

subsection \<open>Constant groups declared with iota\<close>

text \<open>
  In a Go constant block \<^verbatim>\<open>iota\<close> is the index of the constant specification
  inside the block, and a specification without an expression repeats the previous
  expression. Each block is therefore one expression in \<^verbatim>\<open>iota\<close>, applied to
  the position of the constant.
\<close>

text \<open>Properties: \<^verbatim>\<open>TIMEOUT_COMMAND = iota\<close>.\<close>

definition property_expr :: "nat \<Rightarrow> int" where
  "property_expr iota = int iota"

definition TIMEOUT_COMMAND :: int where "TIMEOUT_COMMAND = property_expr 0"
definition TIMEOUT_ATR :: int where "TIMEOUT_ATR = property_expr 1"
definition TIMEOUT_COM :: int where "TIMEOUT_COM = property_expr 2"
definition HANDLE_CRC :: int where "HANDLE_CRC = property_expr 3"
definition HANDLE_PARITY :: int where "HANDLE_PARITY = property_expr 4"
definition ACTIVATE_FIELD :: int where "ACTIVATE_FIELD = property_expr 5"
definition ACTIVATE_CRYPTO1 :: int where "ACTIVATE_CRYPTO1 = property_expr 6"
definition INFINITE_SELECT :: int where "INFINITE_SELECT = property_expr 7"
definition ACCEPT_INVALID_FRAMES :: int where "ACCEPT_INVALID_FRAMES = property_expr 8"
definition ACCEPT_MULTIPLE_FRAMES :: int where "ACCEPT_MULTIPLE_FRAMES = property_expr 9"
definition AUTO_ISO14443_4 :: int where "AUTO_ISO14443_4 = property_expr 10"
definition EASY_FRAMING :: int where "EASY_FRAMING = property_expr 11"
definition FORCE_ISO14443_A :: int where "FORCE_ISO14443_A = property_expr 12"
definition FORCE_ISO14443_B :: int where "FORCE_ISO14443_B = property_expr 13"
definition FORCE_SPEED_106 :: int where "FORCE_SPEED_106 = property_expr 14"

text \<open>Modulation types: \<^verbatim>\<open>ISO14443A = iota + 1\<close>.\<close>

definition modulation_expr :: "nat \<Rightarrow> int" where
  "modulation_expr iota = int iota + 1"

definition ISO14443A :: int where "ISO14443A = modulation_expr 0"
definition JEWEL :: int where "JEWEL = modulation_expr 1"
definition ISO14443B :: int where "ISO14443B = modulation_expr 2"
definition ISO14443BI :: int where "ISO14443BI = modulation_expr 3"
definition ISO14443B2SR :: int where "ISO14443B2SR = modulation_expr 4"
definition ISO14443B2CT :: int where "ISO14443B2CT = modulation_expr 5"
definition FELICA :: int where "FELICA = modulation_expr 6"
definition DEP :: int where "DEP = modulation_expr 7"

text \<open>Baud rates: \<^verbatim>\<open>NBR_106 = iota + 1\<close>.\<close>

definition baudrate_expr :: "nat \<Rightarrow> int" where
  "baudrate_expr iota = int iota + 1"

definition NBR_106 :: int where "NBR_106 = baudrate_expr 0"
definition NBR_212 :: int where "NBR_212 = baudrate_expr 1"
definition NBR_424 :: int where "NBR_424 = baudrate_expr 2"
definition NBR_847 :: int where "NBR_847 = baudrate_expr 3"

text \<open>The three groups, each in the order of declaration.\<close>

definition property_group :: "int list" where
  "property_group =
    [TIMEOUT_COMMAND, TIMEOUT_ATR, TIMEOUT_COM, HANDLE_CRC, HANDLE_PARITY,
     ACTIVATE_FIELD, ACTIVATE_CRYPTO1, INFINITE_SELECT, ACCEPT_INVALID_FRAMES,
     ACCEPT_MULTIPLE_FRAMES, AUTO_ISO14443_4, EASY_FRAMING, FORCE_ISO14443_A,
     FORCE_ISO14443_B, FORCE_SPEED_106]"

definition modulation_group :: "int list" where
  "modulation_group =
    [ISO14443A, JEWEL, ISO14443B, ISO14443BI, ISO14443B2SR, ISO14443B2CT, FELICA, DEP]"

definition baudrate_group :: "int list" where
  "baudrate_group = [NBR_106, NBR_212, NBR_424, NBR_847]"

subsection \<open>Error codes\<close>

type_synonym Error = int

definition SUCCESS :: int where "SUCCESS = 0"
definition EIO :: int where "EIO = - 1"
definition EINVARG :: int where "EINVARG = - 2"
definition EDEVNOTSUPP :: int where "EDEVNOTSUPP = - 3"
definition ENOTSUCHDEV :: int where "ENOTSUCHDEV = - 4"
definition EOVFLOW :: int where "EOVFLOW = - 5"
definition ETIMEOUT :: int where "ETIMEOUT = - 6"
definition EOPABORTED :: int where "EOPABORTED = - 7"
definition ENOTIMPL :: int where "ENOTIMPL = - 8"
definition ETGRELEASED :: int where "ETGRELEASED = - 10"
definition ERFTRANS :: int where "ERFTRANS = - 20"
definition EMFCAUTHFAIL :: int where "EMFCAUTHFAIL = - 30"
definition ESOFT :: int where "ESOFT = - 80"
definition ECHIP :: int where "ECHIP = - 90"

text \<open>The error-code block in the order of declaration.\<close>

definition error_codes :: "int list" where
  "error_codes =
    [SUCCESS, EIO, EINVARG, EDEVNOTSUPP, ENOTSUCHDEV, EOVFLOW, ETIMEOUT, EOPABORTED,
     ENOTIMPL, ETGRELEASED, ERFTRANS, EMFCAUTHFAIL, ESOFT, ECHIP]"

section \<open>Package state\<close>

text \<open>
  The composite literal that initialises \<^verbatim>\<open>errorMessages\<close>, entry by entry in
  the order of the source.
\<close>

definition errorMessages_literal :: "(int \<times> string) list" where
  "errorMessages_literal =
    [(SUCCESS, ''Success''),
     (EIO, ''Input / Output Error''),
     (EINVARG, ''Invalid argument(s)''),
     (EDEVNOTSUPP, ''Not Supported by Device''),
     (ENOTSUCHDEV, ''No Such Device''),
     (EOVFLOW, ''Buffer Overflow''),
     (ETIMEOUT, ''Timeout''),
     (EOPABORTED, ''Operation Aborted''),
     (ENOTIMPL, ''Not (yet) Implemented''),
     (ETGRELEASED, ''Target Released''),
     (EMFCAUTHFAIL, ''Mifare Authentication Failed''),
     (ERFTRANS, ''RF Transmission Error''),
     (ECHIP, ''Device's Internal Chip Error'')]"

text \<open>
  Both package-level declarations are \<^verbatim>\<open>var\<close>s, hence mutable state:
  \<^verbatim>\<open>errorMessages\<close> holds a map and \<^verbatim>\<open>theContext\<close> a pointer into the heap
  (\<open>None\<close> is \<^verbatim>\<open>nil\<close>). The struct type \<^verbatim>\<open>context\<close> is declared outside this
  file; it is the type parameter \<open>'c\<close>.
\<close>

type_synonym addr = nat

record 'c pkg_state =
  errorMessages :: "int \<rightharpoonup> string"
  theContext :: "addr option"
  heap :: "addr \<rightharpoonup> 'c"

text \<open>
  Package initialisation runs each variable initialiser once. \<^verbatim>\<open>&context{}\<close>
  allocates one object holding the zero value \<open>zero\<close> of the struct at a fresh
  address \<open>a\<close>.
\<close>

definition package_init :: "addr \<Rightarrow> 'c \<Rightarrow> 'c pkg_state" where
  "package_init a zero =
    \<lparr>errorMessages = map_of errorMessages_literal,
     theContext = Some a,
     heap = [a \<mapsto> zero]\<rparr>"

section \<open>The method Error.Error\<close>

text \<open>Indexing a Go map: a missing key yields the zero value of the element type.\<close>

definition map_index :: "(int \<rightharpoonup> string) \<Rightarrow> int \<Rightarrow> string" where
  "map_index m k = (case m k of None \<Rightarrow> [] | Some v \<Rightarrow> v)"

text \<open>
  The verb \<^verbatim>\<open>%d\<close> of \<^verbatim>\<open>fmt.Sprintf\<close>: base ten, most significant digit first,
  no leading zeros, a minus sign before a negative number.
\<close>

definition digit_char :: "nat \<Rightarrow> char" where
  "digit_char d = ''0123456789'' ! d"

fun format_nat :: "nat \<Rightarrow> string" where
  "format_nat n =
    (if n < 10 then [digit_char n] else format_nat (n div 10) @ [digit_char (n mod 10)])"

declare format_nat.simps [simp del]

definition format_int :: "int \<Rightarrow> string" where
  "format_int i = (if i < 0 then CHR ''-'' # format_nat (nat (- i)) else format_nat (nat i))"

definition Sprintf_Error_d :: "int \<Rightarrow> string" where
  "Sprintf_Error_d i = ''Error '' @ format_int i"

text \<open>
  The method reads the package variable \<^verbatim>\<open>errorMessages\<close> and assigns nothing;
  it returns its string together with the state it leaves behind. The conversion
  \<^verbatim>\<open>int(e)\<close> is the identity on the underlying integer.
\<close>

definition Error_Error :: "'c pkg_state \<Rightarrow> Error \<Rightarrow> string \<times> 'c pkg_state" where
  "Error_Error s e =
    (if map_index (errorMessages s) e = [] then (Sprintf_Error_d e, s)
     else (map_index (errorMessages s) e, s))"

text \<open>
  A program's use of the package as far as this file defines it: a sequence of calls
  of \<^verbatim>\<open>Error.Error\<close>.
\<close>

datatype call = Call_Error_Error Error

fun exec :: "'c pkg_state \<Rightarrow> call \<Rightarrow> 'c pkg_state" where
  "exec s (Call_Error_Error e) = snd (Error_Error s e)"

definition run :: "'c pkg_state \<Rightarrow> call list \<Rightarrow> 'c pkg_state" where
  "run s cs = foldl exec s cs"

section \<open>Specification side: decimal numerals\<close>

text \<open>
  The specification speaks of the decimal value of the code. Independently of how the
  formatting above produces its digits, the following reads a string as a decimal
  numeral: the digits \<open>0\<close> to \<open>9\<close> valued by Horner's rule, no leading zero
  except in the numeral \<open>0\<close> itself, an optional minus sign, and no \<open>-0\<close>. Any
  other string is not a numeral.
\<close>

definition is_digit :: "char \<Rightarrow> bool" where
  "is_digit c = (c \<in> set ''0123456789'')"

definition digit_value :: "char \<Rightarrow> nat" where
  "digit_value c = of_char c - 48"

definition digits_value :: "string \<Rightarrow> nat" where
  "digits_value ds = foldl (\<lambda>v c. 10 * v + digit_value c) 0 ds"

definition canonical_digits :: "string \<Rightarrow> bool" where
  "canonical_digits ds =
    (ds \<noteq> [] \<and> list_all is_digit ds \<and> (ds = ''0'' \<or> hd ds \<in> set ''123456789''))"

definition decimal_numeral :: "string \<Rightarrow> int option" where
  "decimal_numeral str =
    (case str of
       [] \<Rightarrow> None
     | c # cs \<Rightarrow>
         if c = CHR ''-'' then
           (if canonical_digits cs \<and> cs \<noteq> ''0'' then Some (- int (digits_value cs)) else None)
         else if canonical_digits str then Some (int (digits_value str))
         else None)"

section \<open>Auxiliary facts\<close>

subsection \<open>Unfolding the constants\<close>

lemmas error_code_defs =
  SUCCESS_def EIO_def EINVARG_def EDEVNOTSUPP_def ENOTSUCHDEV_def EOVFLOW_def
  ETIMEOUT_def EOPABORTED_def ENOTIMPL_def ETGRELEASED_def ERFTRANS_def
  EMFCAUTHFAIL_def ESOFT_def ECHIP_def

lemmas property_defs =
  TIMEOUT_COMMAND_def TIMEOUT_ATR_def TIMEOUT_COM_def HANDLE_CRC_def HANDLE_PARITY_def
  ACTIVATE_FIELD_def ACTIVATE_CRYPTO1_def INFINITE_SELECT_def ACCEPT_INVALID_FRAMES_def
  ACCEPT_MULTIPLE_FRAMES_def AUTO_ISO14443_4_def EASY_FRAMING_def FORCE_ISO14443_A_def
  FORCE_ISO14443_B_def FORCE_SPEED_106_def property_expr_def

lemmas modulation_defs =
  ISO14443A_def JEWEL_def ISO14443B_def ISO14443BI_def ISO14443B2SR_def ISO14443B2CT_def
  FELICA_def DEP_def modulation_expr_def

lemmas baudrate_defs =
  NBR_106_def NBR_212_def NBR_424_def NBR_847_def baudrate_expr_def


text \<open>The table literal with its keys evaluated.\<close>

lemma errorMessages_literal_values:
  "errorMessages_literal =
    [(0, ''Success''),
     (- 1, ''Input / Output Error''),
     (- 2, ''Invalid argument(s)''),
     (- 3, ''Not Supported by Device''),
     (- 4, ''No Such Device''),
     (- 5, ''Buffer Overflow''),
     (- 6, ''Timeout''),
     (- 7, ''Operation Aborted''),
     (- 8, ''Not (yet) Implemented''),
     (- 10, ''Target Released''),
     (- 30, ''Mifare Authentication Failed''),
     (- 20, ''RF Transmission Error''),
     (- 90, ''Device's Internal Chip Error'')]"
  by (simp add: errorMessages_literal_def error_code_defs)

lemma errorMessages_init [simp]:
  "errorMessages (package_init a zero) = map_of errorMessages_literal"
  by (simp add: package_init_def)

subsection \<open>Decimal formatting\<close>

lemma format_nat_small: "n < 10 \<Longrightarrow> format_nat n = [digit_char n]"
  by (simp add: format_nat.simps)

lemma format_nat_large:
  "\<not> n < 10 \<Longrightarrow> format_nat n = format_nat (n div 10) @ [digit_char (n mod 10)]"
  by (subst format_nat.simps) simp

lemma format_nat_not_Nil: "format_nat n \<noteq> []"
  by (cases "n < 10") (simp_all add: format_nat_small format_nat_large)

lemma digit_char_code_upto:
  "\<forall>d \<in> set [0..<10]. of_char (digit_char d) = 48 + d"
  by code_simp

lemma digit_char_code:
  assumes "d < 10"
  shows "of_char (digit_char d) = 48 + d"
  using digit_char_code_upto assms by simp

lemma digit_char_inj:
  assumes "d < 10" "d' < 10" "digit_char d = digit_char d'"
  shows "d = d'"
proof -
  have "(48 + d :: nat) = of_char (digit_char d)"
    using assms(1) by (simp add: digit_char_code)
  also have "\<dots> = 48 + d'"
    using assms(2,3) by (simp add: digit_char_code)
  finally show ?thesis by simp
qed

lemma digit_char_not_minus:
  assumes "d < 10"
  shows "digit_char d \<noteq> CHR ''-''"
proof
  assume "digit_char d = CHR ''-''"
  then have "(of_char (digit_char d) :: nat) = of_char CHR ''-''" by simp
  then show False using assms by (simp add: digit_char_code)
qed

lemma format_nat_digits: "CHR ''-'' \<notin> set (format_nat n)"
proof (induction n rule: format_nat.induct)
  case (1 n)
  show ?case
  proof (cases "n < 10")
    case True
    then show ?thesis
      using digit_char_not_minus [of n] by (simp add: format_nat_small)
  next
    case False
    have "n mod 10 < 10" by simp
    then have "digit_char (n mod 10) \<noteq> CHR ''-''" by (rule digit_char_not_minus)
    moreover have "CHR ''-'' \<notin> set (format_nat (n div 10))"
      using False by (rule "1.IH")
    ultimately show ?thesis
      unfolding format_nat_large [OF False] by auto
  qed
qed

lemma format_nat_length_large:
  assumes "\<not> n < 10"
  shows "2 \<le> length (format_nat n)"
proof -
  have "format_nat (n div 10) \<noteq> []"
    by (rule format_nat_not_Nil)
  then show ?thesis
    unfolding format_nat_large [OF assms] by (simp add: Suc_le_eq)
qed

lemma format_nat_length_small: "n < 10 \<Longrightarrow> length (format_nat n) = 1"
  by (simp add: format_nat_small)

lemma format_nat_no_sign: "format_nat n \<noteq> CHR ''-'' # xs"
proof
  assume "format_nat n = CHR ''-'' # xs"
  then have "CHR ''-'' \<in> set (format_nat n)" by simp
  then show False by (simp add: format_nat_digits)
qed

lemma format_nat_inj: "format_nat m = format_nat n \<Longrightarrow> m = n"
proof (induction m arbitrary: n rule: format_nat.induct)
  case (1 m)
  from "1.prems" have len: "length (format_nat m) = length (format_nat n)"
    by simp
  show ?case
  proof (cases "m < 10")
    case small_m: True
    show ?thesis
    proof (cases "n < 10")
      case True
      with small_m "1.prems" show ?thesis
        by (simp add: format_nat_small digit_char_inj)
    next
      case False
      from format_nat_length_large [OF False] format_nat_length_small [OF small_m] len
      show ?thesis by simp
    qed
  next
    case large_m: False
    show ?thesis
    proof (cases "n < 10")
      case True
      from format_nat_length_large [OF large_m] format_nat_length_small [OF True] len
      show ?thesis by simp
    next
      case False
      from "1.prems" have
        "format_nat (m div 10) @ [digit_char (m mod 10)] =
          format_nat (n div 10) @ [digit_char (n mod 10)]"
        unfolding format_nat_large [OF large_m] format_nat_large [OF False] .
      then have
        eq: "format_nat (m div 10) = format_nat (n div 10)"
        and dg: "digit_char (m mod 10) = digit_char (n mod 10)"
        by simp_all
      from "1.IH" [OF large_m eq] have dv: "m div 10 = n div 10" .
      from dg have md: "m mod 10 = n mod 10"
        by (intro digit_char_inj) simp_all
      have "m = 10 * (m div 10) + m mod 10" by simp
      also have "\<dots> = 10 * (n div 10) + n mod 10" by (simp only: dv md)
      also have "\<dots> = n" by simp
      finally show ?thesis .
    qed
  qed
qed

lemma format_int_inj: "format_int i = format_int j \<Longrightarrow> i = j"
proof -
  assume eq: "format_int i = format_int j"
  show "i = j"
  proof (cases "i < 0")
    case neg_i: True
    show ?thesis
    proof (cases "j < 0")
      case True
      with neg_i eq have "format_nat (nat (- i)) = format_nat (nat (- j))"
        by (simp add: format_int_def)
      then have "nat (- i) = nat (- j)" by (rule format_nat_inj)
      with neg_i True show ?thesis by simp
    next
      case False
      with neg_i eq have "format_nat (nat j) = CHR ''-'' # format_nat (nat (- i))"
        by (simp add: format_int_def)
      then show ?thesis by (simp add: format_nat_no_sign)
    qed
  next
    case pos_i: False
    show ?thesis
    proof (cases "j < 0")
      case True
      with pos_i eq have "format_nat (nat i) = CHR ''-'' # format_nat (nat (- j))"
        by (simp add: format_int_def)
      then show ?thesis by (simp add: format_nat_no_sign)
    next
      case False
      with pos_i eq have "format_nat (nat i) = format_nat (nat j)"
        by (simp add: format_int_def)
      then have "nat i = nat j" by (rule format_nat_inj)
      with pos_i False show ?thesis by simp
    qed
  qed
qed

subsection \<open>The formatting against the specification of decimal numerals\<close>

lemma digit_char_upto:
  "\<forall>d \<in> set [0..<10]. is_digit (digit_char d) \<and> digit_value (digit_char d) = d \<and>
     (d = 0 \<or> digit_char d \<in> set ''123456789'')"
  by code_simp

lemma digit_char_digit:
  assumes "d < 10"
  shows "is_digit (digit_char d)" "digit_value (digit_char d) = d"
    "d = 0 \<or> digit_char d \<in> set ''123456789''"
  using digit_char_upto assms by simp_all

lemma is_digit_all:
  "\<forall>c \<in> set ''0123456789''. digit_value c < 10 \<and> digit_char (digit_value c) = c"
  by code_simp

lemma is_digit_value:
  assumes "is_digit c"
  shows "digit_value c < 10" "digit_char (digit_value c) = c"
  using is_digit_all assms unfolding is_digit_def by blast+

lemma digits_value_snoc: "digits_value (ds @ [c]) = 10 * digits_value ds + digit_value c"
  by (simp add: digits_value_def)

lemma digits_value_zero: "digits_value ''0'' = 0"
  by (simp add: digits_value_def digit_value_def)

lemma format_nat_zero: "format_nat 0 = ''0''"
  by (simp add: format_nat.simps digit_char_def)


lemma format_nat_zero_iff: "format_nat n = ''0'' \<Longrightarrow> n = 0"
  using format_nat_inj [of n 0] by (simp add: format_nat_zero)

lemma format_nat_canonical:
  "canonical_digits (format_nat n) \<and> digits_value (format_nat n) = n"
proof (induction n rule: format_nat.induct)
  case (1 n)
  show ?case
  proof (cases "n < 10")
    case True
    from digit_char_digit [OF True] show ?thesis
      unfolding format_nat_small [OF True]
      by (auto simp add: canonical_digits_def digits_value_def digit_char_def)
  next
    case False
    let ?xs = "format_nat (n div 10)"
    let ?c = "digit_char (n mod 10)"
    have low: "n mod 10 < 10" by simp
    from "1.IH" [OF False] have can: "canonical_digits ?xs" and val: "digits_value ?xs = n div 10"
      by simp_all
    from can have ne: "?xs \<noteq> []" and digs: "list_all is_digit ?xs"
      and lead: "?xs = ''0'' \<or> hd ?xs \<in> set ''123456789''"
      by (simp_all add: canonical_digits_def)
    from False have "n div 10 \<noteq> 0" by simp
    with format_nat_zero_iff [of "n div 10"] have "?xs \<noteq> ''0''" by blast
    with lead have lead': "hd ?xs \<in> set ''123456789''" by blast
    have "canonical_digits (?xs @ [?c])"
      using ne digs lead' digit_char_digit(1) [OF low]
      by (simp add: canonical_digits_def)
    moreover have "digits_value (?xs @ [?c]) = n"
      using val digit_char_digit(2) [OF low] by (simp add: digits_value_snoc)
    ultimately show ?thesis
      unfolding format_nat_large [OF False] by simp
  qed
qed

lemma canonical_digits_format: "canonical_digits ds \<Longrightarrow> format_nat (digits_value ds) = ds"
proof (induction ds rule: rev_induct)
  case Nil
  then show ?case by (simp add: canonical_digits_def)
next
  case (snoc c xs)
  from snoc.prems have dc: "is_digit c" and digs: "list_all is_digit xs"
    and lead: "xs @ [c] = ''0'' \<or> hd (xs @ [c]) \<in> set ''123456789''"
    by (simp_all add: canonical_digits_def)
  note cv = is_digit_value [OF dc]
  show ?case
  proof (cases "xs = []")
    case True
    with cv show ?thesis
      by (simp add: digits_value_def format_nat_small)
  next
    case False
    with lead have lead': "hd xs \<in> set ''123456789''" by (cases xs) auto
    with False digs have "canonical_digits xs" by (simp add: canonical_digits_def)
    then have ih: "format_nat (digits_value xs) = xs" by (rule snoc.IH)
    have pos: "digits_value xs \<noteq> 0"
    proof
      assume "digits_value xs = 0"
      with ih have "xs = ''0''" by (simp add: format_nat_zero)
      with lead' show False by simp
    qed
    let ?n = "10 * digits_value xs + digit_value c"
    from pos have big: "\<not> ?n < 10" by simp
    from cv(1) have "?n div 10 = digits_value xs" "?n mod 10 = digit_value c" by simp_all
    with ih cv(2) have "format_nat ?n = xs @ [c]"
      unfolding format_nat_large [OF big] by simp
    then show ?thesis by (simp only: digits_value_snoc)
  qed
qed

lemma decimal_numeral_format_int: "decimal_numeral (format_int e) = Some e"
proof (cases "e < 0")
  case True
  let ?cs = "format_nat (nat (- e))"
  from True have "nat (- e) \<noteq> 0" by simp
  with format_nat_zero_iff [of "nat (- e)"] have "?cs \<noteq> ''0''" by blast
  with True format_nat_canonical [of "nat (- e)"] show ?thesis
    by (simp add: decimal_numeral_def format_int_def)
next
  case False
  let ?ds = "format_nat (nat e)"
  obtain c cs where shape: "?ds = c # cs"
    using format_nat_not_Nil [of "nat e"] by (cases ?ds) simp_all
  with format_nat_no_sign [of "nat e" cs] have "c \<noteq> CHR ''-''" by auto
  with False shape format_nat_canonical [of "nat e"] show ?thesis
    by (simp add: decimal_numeral_def format_int_def)
qed

lemma decimal_numeral_unique:
  assumes "decimal_numeral d = Some e"
  shows "d = format_int e"
proof (cases d)
  case Nil
  with assms show ?thesis by (simp add: decimal_numeral_def)
next
  case (Cons c cs)
  show ?thesis
  proof (cases "c = CHR ''-''")
    case True
    with assms Cons have can: "canonical_digits cs" and nz: "cs \<noteq> ''0''"
      and val: "e = - int (digits_value cs)"
      by (simp_all add: decimal_numeral_def split: if_splits)
    from can have fmt: "format_nat (digits_value cs) = cs" by (rule canonical_digits_format)
    have "digits_value cs \<noteq> 0"
    proof
      assume "digits_value cs = 0"
      with fmt nz show False by (simp add: format_nat_zero)
    qed
    with val have "e < 0" "nat (- e) = digits_value cs" by simp_all
    with fmt Cons True show ?thesis by (simp add: format_int_def)
  next
    case False
    with assms Cons have can: "canonical_digits d" and val: "e = int (digits_value d)"
      by (simp_all add: decimal_numeral_def split: if_splits)
    from can have "format_nat (digits_value d) = d" by (rule canonical_digits_format)
    with val show ?thesis by (simp add: format_int_def)
  qed
qed

subsection \<open>The initial table\<close>

lemma literal_distinct_keys: "distinct (map fst errorMessages_literal)"
  by (simp add: errorMessages_literal_values)

lemma literal_distinct_messages: "distinct (map snd errorMessages_literal)"
  by (simp add: errorMessages_literal_values)

lemma literal_message_shape:
  "(k, m) \<in> set errorMessages_literal \<Longrightarrow> m \<noteq> [] \<and> hd m \<noteq> CHR ''E''"
  by (auto simp add: errorMessages_literal_values)

lemma distinct_snd_same_key:
  "distinct (map snd xs) \<Longrightarrow> (a, v) \<in> set xs \<Longrightarrow> (b, v) \<in> set xs \<Longrightarrow> a = b"
  by (induction xs) (auto simp add: image_iff)

lemma format_int_samples:
  "format_int (- 80) = ''-80''" "format_int (- 999) = ''-999''"
  "format_int 42 = ''42''" "format_int (- 11) = ''-11''"
  by code_simp+

subsection \<open>Facts about Error.Error and runs\<close>

lemma Error_Error_state: "snd (Error_Error s e) = s"
  by (simp add: Error_Error_def)

lemma Error_Error_absent:
  "errorMessages s e = None \<Longrightarrow> fst (Error_Error s e) = Sprintf_Error_d e"
  by (simp add: Error_Error_def map_index_def)

lemma Error_Error_present:
  "errorMessages s e = Some m \<Longrightarrow> m \<noteq> [] \<Longrightarrow> fst (Error_Error s e) = m"
  by (simp add: Error_Error_def map_index_def)

lemma Sprintf_Error_d_shape: "Sprintf_Error_d e \<noteq> [] \<and> hd (Sprintf_Error_d e) = CHR ''E''"
  by (simp add: Sprintf_Error_d_def)

lemma Sprintf_Error_d_inj: "Sprintf_Error_d i = Sprintf_Error_d j \<Longrightarrow> i = j"
  by (simp add: Sprintf_Error_d_def format_int_inj)

lemma exec_state: "exec s c = s"
  by (cases c) (simp add: Error_Error_state)

lemma run_state: "run s cs = s"
  unfolding run_def by (induction cs) (simp_all add: exec_state)

section \<open>Properties of the package\<close>

text \<open>
  C1 (as stated, refuted at \<^verbatim>\<open>ESOFT\<close>). The claim says that each of the 13
  declared non-success codes is answered with its string from the table and not with
  the synthesized fallback. \<^verbatim>\<open>ESOFT\<close> is declared but the table literal has no
  entry for it: the lookup yields the empty string and \<^verbatim>\<open>Error(ESOFT).Error()\<close>
  is the fallback \<^verbatim>\<open>"Error -80"\<close>.
\<close>

theorem Error_Error_ESOFT_counterexample:
  "errorMessages (package_init 0 ()) ESOFT = None \<and>
   fst (Error_Error (package_init 0 ()) ESOFT) = ''Error -80''"
  by (simp add: Error_Error_absent errorMessages_literal_values ESOFT_def
      Sprintf_Error_d_def format_int_samples)

text \<open>
  C1 (amended). For each of the 12 non-success codes that have an entry in the table,
  that is all declared codes except \<^verbatim>\<open>ESOFT\<close>, the table holds the canonical string
  and \<^verbatim>\<open>Error.Error\<close> returns exactly that string;
  \<^verbatim>\<open>ESOFT\<close> has no entry and is answered with \<^verbatim>\<open>"Error -80"\<close>. The state is
  the one package initialisation leaves, for any address and zero value of the context.
\<close>

theorem Error_Error_table_codes:
  "map (errorMessages (package_init a zero))
     [EIO, EINVARG, EDEVNOTSUPP, ENOTSUCHDEV, EOVFLOW, ETIMEOUT, EOPABORTED, ENOTIMPL,
      ETGRELEASED, ERFTRANS, EMFCAUTHFAIL, ECHIP] =
   map Some
     [''Input / Output Error'', ''Invalid argument(s)'', ''Not Supported by Device'',
      ''No Such Device'', ''Buffer Overflow'', ''Timeout'', ''Operation Aborted'',
      ''Not (yet) Implemented'', ''Target Released'', ''RF Transmission Error'',
      ''Mifare Authentication Failed'', ''Device's Internal Chip Error''] \<and>
   map (\<lambda>e. fst (Error_Error (package_init a zero) e))
     [EIO, EINVARG, EDEVNOTSUPP, ENOTSUCHDEV, EOVFLOW, ETIMEOUT, EOPABORTED, ENOTIMPL,
      ETGRELEASED, ERFTRANS, EMFCAUTHFAIL, ECHIP] =
     [''Input / Output Error'', ''Invalid argument(s)'', ''Not Supported by Device'',
      ''No Such Device'', ''Buffer Overflow'', ''Timeout'', ''Operation Aborted'',
      ''Not (yet) Implemented'', ''Target Released'', ''RF Transmission Error'',
      ''Mifare Authentication Failed'', ''Device's Internal Chip Error''] \<and>
   errorMessages (package_init a zero) ESOFT = None \<and>
   fst (Error_Error (package_init a zero) ESOFT) = ''Error -80''"
  by (simp add: Error_Error_def map_index_def errorMessages_literal_values error_code_defs
      Sprintf_Error_d_def format_int_samples)

text \<open>
  C2. Whenever the table has no entry for a code, \<^verbatim>\<open>Error.Error\<close> returns
  \<^verbatim>\<open>"Error "\<close> followed by the rendering of the code, and leaves the state as it
  was; and that rendering is the decimal value of the code: a string is the decimal
  numeral of the code, in the sense of the specification side, exactly when it is the
  rendering. The statement holds for every table and every integer. The body has no
  operation that can panic (indexing a map with a missing key yields the zero value,
  and the format verb matches its argument), and its only loop, the one producing the
  digits, is a terminating recursion, so the call returns for every input.
\<close>

theorem Error_Error_fallback:
  "errorMessages s e = None \<Longrightarrow>
     Error_Error s e = (''Error '' @ format_int e, s) \<and>
     (decimal_numeral d = Some e) = (d = format_int e)"
proof -
  assume absent: "errorMessages s e = None"
  have "(decimal_numeral d = Some e) = (d = format_int e)"
    using decimal_numeral_unique [of d e] decimal_numeral_format_int [of e] by blast
  with absent show ?thesis
    by (simp add: Error_Error_def map_index_def Sprintf_Error_d_def)
qed

text \<open>
  The fallback at the three codes named by the specification, none of which the
  initial table contains: \<open>-999\<close>, \<open>42\<close> and \<open>-11\<close>.
\<close>

theorem Error_Error_fallback_witness:
  "errorMessages (package_init 0 ()) (- 999) = None \<and>
   Error_Error (package_init 0 ()) (- 999) = (''Error -999'', package_init 0 ()) \<and>
   decimal_numeral ''-999'' = Some (- 999) \<and>
   errorMessages (package_init 0 ()) 42 = None \<and>
   Error_Error (package_init 0 ()) 42 = (''Error 42'', package_init 0 ()) \<and>
   decimal_numeral ''42'' = Some 42 \<and>
   errorMessages (package_init 0 ()) (- 11) = None \<and>
   Error_Error (package_init 0 ()) (- 11) = (''Error -11'', package_init 0 ()) \<and>
   decimal_numeral ''-11'' = Some (- 11)"
proof -
  have a1: "errorMessages (package_init 0 ()) (- 999) = None"
    and a2: "errorMessages (package_init 0 ()) 42 = None"
    and a3: "errorMessages (package_init 0 ()) (- 11) = None"
    by (simp_all add: errorMessages_literal_values)
  from Error_Error_fallback [OF a1, of "''-999''"]
    Error_Error_fallback [OF a2, of "''42''"]
    Error_Error_fallback [OF a3, of "''-11''"] a1 a2 a3
  show ?thesis
    by (simp add: format_int_samples)
qed

text \<open>
  C3. \<^verbatim>\<open>SUCCESS\<close> is \<open>0\<close>, \<open>0\<close> is a value of the type \<open>Error\<close>, and on the
  initial state \<^verbatim>\<open>Error(SUCCESS).Error()\<close> is exactly \<^verbatim>\<open>"Success"\<close>.
\<close>

theorem Error_Error_SUCCESS:
  "SUCCESS = 0 \<and> fst (Error_Error (package_init a zero) (0 :: Error)) = ''Success'' \<and>
   fst (Error_Error (package_init a zero) SUCCESS) = ''Success''"
  by (simp add: Error_Error_def map_index_def errorMessages_literal_values SUCCESS_def)

text \<open>
  C4. The 14 error-code constants have the listed values, and the values are pairwise
  distinct.
\<close>

theorem error_code_values:
  "SUCCESS = 0 \<and> EIO = - 1 \<and> EINVARG = - 2 \<and> EDEVNOTSUPP = - 3 \<and> ENOTSUCHDEV = - 4 \<and>
   EOVFLOW = - 5 \<and> ETIMEOUT = - 6 \<and> EOPABORTED = - 7 \<and> ENOTIMPL = - 8 \<and>
   ETGRELEASED = - 10 \<and> ERFTRANS = - 20 \<and> EMFCAUTHFAIL = - 30 \<and> ESOFT = - 80 \<and>
   ECHIP = - 90 \<and> length error_codes = 14 \<and> distinct error_codes"
  by (simp add: error_codes_def error_code_defs)

text \<open>
  C5. Each constant group (15 property identifiers, 8 modulation types, 4 baud rates)
  is strictly increasing in the order of declaration and has no duplicate value.
\<close>

theorem constant_groups_increasing:
  "length property_group = 15 \<and> sorted_wrt (<) property_group \<and> distinct property_group \<and>
   length modulation_group = 8 \<and> sorted_wrt (<) modulation_group \<and> distinct modulation_group \<and>
   length baudrate_group = 4 \<and> sorted_wrt (<) baudrate_group \<and> distinct baudrate_group"
  by (simp add: property_group_def property_defs modulation_group_def modulation_defs
      baudrate_group_def baudrate_defs)

text \<open>
  C7. \<^verbatim>\<open>Error.Error\<close> has no side effect: the state after the call is the state
  before it, in particular the table is not modified. It is deterministic: a second
  call on the same code, directly or after any sequence of other calls, returns the
  same string.
\<close>

theorem Error_Error_pure:
  "snd (Error_Error s e) = s \<and>
   errorMessages (snd (Error_Error s e)) = errorMessages s \<and>
   fst (Error_Error (snd (Error_Error s e)) e) = fst (Error_Error s e) \<and>
   fst (Error_Error (run s cs) e) = fst (Error_Error s e)"
  by (simp add: Error_Error_state run_state)

text \<open>C8. \<^verbatim>\<open>BUFSIZE_CONNSTRING\<close> is exactly 1024.\<close>

theorem BUFSIZE_CONNSTRING_value: "BUFSIZE_CONNSTRING = 1024"
  by (simp add: BUFSIZE_CONNSTRING_def)

text \<open>
  C9. For every table and every integer code the returned string is not empty; an
  absent entry and an entry holding the empty string both yield the synthesized
  fallback.
\<close>

theorem Error_Error_nonempty:
  "fst (Error_Error s e) \<noteq> [] \<and>
   fst (Error_Error (s\<lparr>errorMessages := (errorMessages s)(e := None)\<rparr>) e) =
     ''Error '' @ format_int e \<and>
   fst (Error_Error (s\<lparr>errorMessages := (errorMessages s)(e \<mapsto> [])\<rparr>) e) =
     ''Error '' @ format_int e"
  by (simp add: Error_Error_def map_index_def Sprintf_Error_d_def)

text \<open>
  C10. On the initial table \<^verbatim>\<open>Error.Error\<close> is injective over all integers:
  distinct codes have distinct description strings.
\<close>

theorem Error_Error_inj: "inj (\<lambda>e. fst (Error_Error (package_init a zero) e))"
proof (rule injI)
  fix i j :: Error
  let ?s = "package_init a zero :: 'a pkg_state"
  assume eq: "fst (Error_Error ?s i) = fst (Error_Error ?s j)"
  have known: "fst (Error_Error ?s k) = m \<and> hd m \<noteq> CHR ''E'' \<and> (k, m) \<in> set errorMessages_literal"
    if "errorMessages ?s k = Some m" for k m
  proof -
    from that have mem: "(k, m) \<in> set errorMessages_literal"
      by (simp add: map_of_SomeD)
    with literal_message_shape [OF mem] that show ?thesis
      by (simp add: Error_Error_present)
  qed
  show "i = j"
  proof (cases "errorMessages ?s i")
    case none_i: None
    show ?thesis
    proof (cases "errorMessages ?s j")
      case None
      with none_i eq have "Sprintf_Error_d i = Sprintf_Error_d j"
        by (simp add: Error_Error_absent)
      then show ?thesis by (rule Sprintf_Error_d_inj)
    next
      case (Some m)
      from known [OF Some] none_i eq Sprintf_Error_d_shape [of i] show ?thesis
        by (simp add: Error_Error_absent)
    qed
  next
    case some_i: (Some m)
    show ?thesis
    proof (cases "errorMessages ?s j")
      case None
      from known [OF some_i] None eq Sprintf_Error_d_shape [of j] show ?thesis
        by (simp add: Error_Error_absent)
    next
      case (Some m')
      from known [OF some_i] known [OF Some] eq
      have "(i, m) \<in> set errorMessages_literal" "(j, m) \<in> set errorMessages_literal"
        by simp_all
      with literal_distinct_messages show ?thesis
        by (rule distinct_snd_same_key)
    qed
  qed
qed

end
